theory Spec2Isabelle
  imports Main
begin

section \<open>Python values, exceptions and the built-ins used by Bebop.py\<close>

text \<open>
  The values that reach the code: \<open>None\<close>, booleans, integers and strings. Floats
  are left out; no property below depends on them.
\<close>

datatype pyval = PNone | PBool bool | PInt int | PStr string

datatype pyerr = TypeError | ValueError | IndexError | AttributeError

type_synonym 'a result = "pyerr + 'a"

text \<open>\<open>bool\<close> is a subclass of \<open>int\<close> in Python: \<open>True\<close> counts as 1.\<close>

fun py_number :: "pyval \<Rightarrow> int option" where
  "py_number (PInt i) = Some i"
| "py_number (PBool b) = Some (if b then 1 else 0)"
| "py_number PNone = None"
| "py_number (PStr s) = None"

text \<open>\<open>v > n\<close> for an integer \<open>n\<close>: ordering a string or \<open>None\<close> against an
  integer raises TypeError.\<close>

definition py_gt :: "pyval \<Rightarrow> int \<Rightarrow> bool result" where
  "py_gt v n = (case py_number v of None \<Rightarrow> Inl TypeError | Some i \<Rightarrow> Inr (n < i))"

text \<open>\<open>xs[v]\<close> on a list: a negative index counts from the end, an index outside
  \<open>-len .. len - 1\<close> raises IndexError, an index that is no integer raises TypeError.\<close>

definition py_getitem :: "'a list \<Rightarrow> pyval \<Rightarrow> 'a result" where
  "py_getitem xs v =
     (case py_number v of
        None \<Rightarrow> Inl TypeError
      | Some i \<Rightarrow>
          (if 0 \<le> i \<and> i < int (length xs) then Inr (xs ! nat i)
           else if i < 0 \<and> - int (length xs) \<le> i then Inr (xs ! nat (int (length xs) + i))
           else Inl IndexError))"

fun dec_nat :: "nat \<Rightarrow> string" where
  "dec_nat n =
     (if n < 10 then [''0123456789'' ! n] else dec_nat (n div 10) @ [''0123456789'' ! (n mod 10)])"

definition dec_int :: "int \<Rightarrow> string" where
  "dec_int i = (if i < 0 then CHR ''-'' # dec_nat (nat (- i)) else dec_nat (nat i))"

fun py_str :: "pyval \<Rightarrow> string" where
  "py_str PNone = ''None''"
| "py_str (PBool b) = (if b then ''True'' else ''False'')"
| "py_str (PInt i) = dec_int i"
| "py_str (PStr s) = s"

text \<open>One conversion of the \<open>%\<close> operator: \<open>%s\<close> takes any value, \<open>%d\<close> a number.\<close>

definition py_conv :: "char \<Rightarrow> pyval \<Rightarrow> string result" where
  "py_conv d a =
     (if d = CHR ''s'' then Inr (py_str a)
      else (case py_number a of None \<Rightarrow> Inl TypeError | Some i \<Rightarrow> Inr (dec_int i)))"

text \<open>
  \<open>fmt % args\<close> with the conversions \<open>%s\<close> and \<open>%d\<close>. \<open>args\<close> is the list of
  the right operand's items: a tuple gives its items, any other value is one item. Too
  few items ("not enough arguments for format string") and too many ("not all arguments
  converted") both raise TypeError.
\<close>

fun py_format :: "string \<Rightarrow> pyval list \<Rightarrow> string result" where
  "py_format (c # d # fs) args =
     (if c = CHR ''%'' then
        (if d = CHR ''s'' \<or> d = CHR ''d'' then
           (case args of
              [] \<Rightarrow> Inl TypeError
            | a # rest \<Rightarrow>
                (case py_conv d a of
                   Inl e \<Rightarrow> Inl e
                 | Inr t \<Rightarrow>
                     (case py_format fs rest of Inl e \<Rightarrow> Inl e | Inr r \<Rightarrow> Inr (t @ r))))
         else Inl ValueError)
      else (case py_format (d # fs) args of Inl e \<Rightarrow> Inl e | Inr r \<Rightarrow> Inr (c # r)))"
| "py_format [c] args =
     (if c = CHR ''%'' then Inl ValueError
      else if args = [] then Inr [c] else Inl TypeError)"
| "py_format [] args = (if args = [] then Inr [] else Inl TypeError)"

text \<open>\<open>str.lower()\<close> on the ASCII letters; the other characters are unchanged.\<close>

definition lower_char :: "char \<Rightarrow> char" where
  "lower_char c =
     (case map_of (zip ''ABCDEFGHIJKLMNOPQRSTUVWXYZ'' ''abcdefghijklmnopqrstuvwxyz'') c of
        Some l \<Rightarrow> l
      | None \<Rightarrow> c)"

definition lower :: "string \<Rightarrow> string" where
  "lower s = map lower_char s"

section \<open>BebopSensors\<close>

record BebopSensors =
  sensors_dict :: "string \<rightharpoonup> pyval"
  RelativeMoveEnded :: bool
  CameraMoveEnded :: bool
  flying_state :: pyval

text \<open>\<open>BebopSensors.__init__\<close>\<close>

definition init_sensors :: BebopSensors where
  "init_sensors =
     \<lparr>sensors_dict = Map.empty, RelativeMoveEnded = False, CameraMoveEnded = False,
      flying_state = PStr ''unknown''\<rparr>"

text \<open>The enum table of the sensor parser: a dict keyed by \<open>(sensor_name, "enum")\<close>
  whose values are the lists of labels.\<close>

type_synonym sensor_enum = "string \<times> string \<rightharpoonup> string list"

text \<open>
  Lines 26 to 38 of \<open>update\<close>: the value written to \<open>sensors_dict\<close>, or the exception
  raised while computing it.
\<close>

definition stored_value :: "string \<Rightarrow> pyval \<Rightarrow> sensor_enum \<Rightarrow> pyval result" where
  "stored_value sensor_name sensor_value sensor_enum =
     (case sensor_enum (sensor_name, ''enum'') of
        Some labels \<Rightarrow>
          (if sensor_value = PNone then Inr (PStr ''UNKNOWN_ENUM_VALUE'')
           else
             (case py_gt sensor_value (int (length labels)) of
                Inl e \<Rightarrow> Inl e
              | Inr True \<Rightarrow> Inr (PStr ''UNKNOWN_ENUM_VALUE'')
              | Inr False \<Rightarrow>
                  (case py_getitem labels sensor_value of
                     Inl e \<Rightarrow> Inl e
                   | Inr enum_value \<Rightarrow> Inr (PStr enum_value))))
      | None \<Rightarrow> Inr sensor_value)"

text \<open>Lines 41 to 48 of \<open>update\<close>: the sensors saved outside the dictionary.\<close>

definition save_outside :: "string \<Rightarrow> pyval \<Rightarrow> BebopSensors \<Rightarrow> BebopSensors" where
  "save_outside sensor_name sensor_value s =
     (let s1 = (if sensor_name = ''FlyingStateChanged_state''
                then s\<lparr>flying_state := sensor_value\<rparr> else s);
          s2 = (if sensor_name = ''PilotingEvent_moveByEnd''
                then s1\<lparr>RelativeMoveEnded := True\<rparr> else s1)
      in if sensor_name = ''CameraState_OrientationV2''
         then s2\<lparr>CameraMoveEnded := True\<rparr> else s2)"

text \<open>
  \<open>BebopSensors.update\<close>. The result is the outcome (an exception or a normal return),
  the lines printed, and the object afterwards. The only statements that can raise come
  before the first assignment, so an exception leaves the object as it was.
\<close>

definition update ::
  "string option \<Rightarrow> pyval \<Rightarrow> sensor_enum \<Rightarrow> BebopSensors \<Rightarrow> unit result \<times> string list \<times> BebopSensors"
where
  "update sensor_name sensor_value sensor_enum s =
     (case sensor_name of
        None \<Rightarrow> (Inr (), [''Error empty sensor''], s)
      | Some name \<Rightarrow>
          (case stored_value name sensor_value sensor_enum of
             Inl e \<Rightarrow> (Inl e, [], s)
           | Inr v \<Rightarrow>
               (Inr (), [],
                save_outside name sensor_value
                  (s\<lparr>sensors_dict := (sensors_dict s)(name \<mapsto> v)\<rparr>))))"

section \<open>The collaborators of Bebop\<close>

text \<open>
  Modelled from the spec: \<open>DroneCommandParser\<close> is not part of the source at hand.
  The spec has it as a pure table lookup from a \<open>(domain, class, command)\<close> reference,
  with an enum variant where the command takes one, to an opaque descriptor. The
  descriptor is kept symbolic: it is named by the reference it was resolved from.
\<close>

datatype command_tuple = CommandTuple string string string

datatype enum_tuple = EnumTuple string

definition get_command_tuple :: "string \<Rightarrow> string \<Rightarrow> string \<Rightarrow> command_tuple" where
  "get_command_tuple project myclass cmd = CommandTuple project myclass cmd"

definition get_command_tuple_with_enum ::
  "string \<Rightarrow> string \<Rightarrow> string \<Rightarrow> string \<Rightarrow> command_tuple \<times> enum_tuple"
where
  "get_command_tuple_with_enum project myclass cmd enum_name =
     (CommandTuple project myclass cmd, EnumTuple enum_name)"

text \<open>The operations of the transport that \<open>Bebop\<close> calls, with their arguments.\<close>

datatype call =
    Connect int
  | SendNoParamAck command_tuple
  | SendEnumAck command_tuple enum_tuple
  | SendPcmd command_tuple int int int int int
  | AckPacket int int
  | SmartSleep int

text \<open>
  \<open>WifiConnection\<close> is not part of the source at hand either and is taken as a
  parameter. It answers a connect with \<open>connect_result\<close>; it answers the send that is
  the \<open>k\<close>-th call made to it with \<open>send_result k\<close>; and while its \<open>k\<close>-th call is in
  progress the telemetry it receives turns the sensors \<open>s\<close> into \<open>inbound k s\<close>.
\<close>

record WifiConnection =
  connect_result :: "int \<Rightarrow> bool"
  send_result :: "nat \<Rightarrow> bool"
  inbound :: "nat \<Rightarrow> BebopSensors \<Rightarrow> BebopSensors"

datatype console_line = Print string | ColorPrint string string

section \<open>Bebop\<close>

text \<open>
  The object and what it has done so far: \<open>calls\<close> lists the calls made to the
  transport, oldest first, each with the sensors as they were when the call was made;
  \<open>console\<close> lists what was printed; \<open>clock_reads\<close> counts the calls of \<open>time.time()\<close>.
\<close>

record Bebop =
  drone_connection :: "WifiConnection option"
  sensors :: BebopSensors
  calls :: "(call \<times> BebopSensors) list"
  console :: "console_line list"
  clock_reads :: nat

text \<open>A method call on \<open>self.drone_connection\<close>; on \<open>None\<close> it raises AttributeError.\<close>

definition transport :: "call \<Rightarrow> Bebop \<Rightarrow> (WifiConnection \<times> nat \<times> Bebop) result" where
  "transport c b =
     (case drone_connection b of
        None \<Rightarrow> Inl AttributeError
      | Some conn \<Rightarrow>
          (let k = length (calls b)
           in Inr (conn, k,
                   b\<lparr>calls := calls b @ [(c, sensors b)],
                     sensors := inbound conn k (sensors b)\<rparr>)))"

definition ack_packet :: "int \<Rightarrow> int \<Rightarrow> Bebop \<Rightarrow> unit result \<times> Bebop" where
  "ack_packet buffer_id sequence_number b =
     (case transport (AckPacket buffer_id sequence_number) b of
        Inl e \<Rightarrow> (Inl e, b)
      | Inr (conn, k, b') \<Rightarrow> (Inr (), b'))"

definition send_noparam_command_packet_ack :: "command_tuple \<Rightarrow> Bebop \<Rightarrow> bool result \<times> Bebop" where
  "send_noparam_command_packet_ack command_tuple b =
     (case transport (SendNoParamAck command_tuple) b of
        Inl e \<Rightarrow> (Inl e, b)
      | Inr (conn, k, b') \<Rightarrow> (Inr (send_result conn k), b'))"

definition send_enum_command_packet_ack ::
  "command_tuple \<Rightarrow> enum_tuple \<Rightarrow> Bebop \<Rightarrow> bool result \<times> Bebop"
where
  "send_enum_command_packet_ack command_tuple enum_tuple b =
     (case transport (SendEnumAck command_tuple enum_tuple) b of
        Inl e \<Rightarrow> (Inl e, b)
      | Inr (conn, k, b') \<Rightarrow> (Inr (send_result conn k), b'))"

definition send_pcmd_command ::
  "command_tuple \<Rightarrow> int \<Rightarrow> int \<Rightarrow> int \<Rightarrow> int \<Rightarrow> int \<Rightarrow> Bebop \<Rightarrow> unit result \<times> Bebop"
where
  "send_pcmd_command command_tuple roll pitch yaw vertical_movement duration b =
     (case transport (SendPcmd command_tuple roll pitch yaw vertical_movement duration) b of
        Inl e \<Rightarrow> (Inl e, b)
      | Inr (conn, k, b') \<Rightarrow> (Inr (), b'))"

text \<open>\<open>Bebop.smart_sleep\<close>\<close>

definition smart_sleep :: "int \<Rightarrow> Bebop \<Rightarrow> unit result \<times> Bebop" where
  "smart_sleep timeout b =
     (case transport (SmartSleep timeout) b of
        Inl e \<Rightarrow> (Inl e, b)
      | Inr (conn, k, b') \<Rightarrow> (Inr (), b'))"

subsection \<open>update_sensors\<close>

text \<open>One decoded sensor: \<open>(sensor_name, sensor_value, sensor_enum, header_tuple)\<close>.\<close>

type_synonym 'h sensor = "string option \<times> pyval \<times> sensor_enum \<times> 'h"

text \<open>The \<open>for\<close> loop of \<open>update_sensors\<close>; an exception in the body ends it.\<close>

fun for_sensor_list :: "int \<Rightarrow> int \<Rightarrow> int \<Rightarrow> 'h sensor list \<Rightarrow> Bebop \<Rightarrow> unit result \<times> Bebop" where
  "for_sensor_list data_type buffer_id sequence_number [] b = (Inr (), b)"
| "for_sensor_list data_type buffer_id sequence_number
      ((sensor_name, sensor_value, sensor_enum, header_tuple) # rest) b =
     (if sensor_name \<noteq> None then
        (case update sensor_name sensor_value sensor_enum (sensors b) of
           (Inl e, printed, s) \<Rightarrow>
             (Inl e, b\<lparr>sensors := s, console := console b @ map Print printed\<rparr>)
         | (Inr u, printed, s) \<Rightarrow>
             for_sensor_list data_type buffer_id sequence_number rest
               (b\<lparr>sensors := s, console := console b @ map Print printed\<rparr>))
      else
        (case py_format ''data type %d buffer id %d sequence number %d''
                [PInt data_type, PInt buffer_id, PInt sequence_number] of
           Inl e \<Rightarrow> (Inl e, b)
         | Inr line \<Rightarrow>
             for_sensor_list data_type buffer_id sequence_number rest
               (b\<lparr>console := console b @
                   [ColorPrint line ''WARN'',
                    ColorPrint (''This sensor is missing (likely because we don'' @ [CHR 0x27] @
                                ''t need it)'') ''WARN'']\<rparr>)))"

text \<open>
  \<open>Bebop.update_sensors\<close>. The codec \<open>extract_sensor_values\<close> of the sensor parser is
  a parameter; it gives \<open>None\<close> or the list of the sensors decoded from the raw data.
\<close>

definition update_sensors ::
  "('r \<Rightarrow> 'h sensor list option) \<Rightarrow> int \<Rightarrow> int \<Rightarrow> int \<Rightarrow> 'r \<Rightarrow> bool \<Rightarrow> Bebop \<Rightarrow> unit result \<times> Bebop"
where
  "update_sensors extract_sensor_values data_type buffer_id sequence_number raw_data ack b =
     (case (case extract_sensor_values raw_data of
              None \<Rightarrow> (Inr (), b)
            | Some sensor_list \<Rightarrow>
                for_sensor_list data_type buffer_id sequence_number sensor_list b) of
        (Inl e, b1) \<Rightarrow> (Inl e, b1)
      | (Inr u, b1) \<Rightarrow>
          (if ack then ack_packet buffer_id sequence_number b1 else (Inr (), b1)))"

subsection \<open>connect, takeoff, land\<close>

definition connect :: "int \<Rightarrow> Bebop \<Rightarrow> pyval result \<times> Bebop" where
  "connect num_retries b =
     (if drone_connection b = None then (Inr (PBool False), b)
      else
        (case transport (Connect num_retries) b of
           Inl e \<Rightarrow> (Inl e, b)
         | Inr (conn, k, b') \<Rightarrow> (Inr (PBool (connect_result conn num_retries)), b')))"

text \<open>\<open>takeoff\<close> has no \<open>return\<close> statement: it returns \<open>None\<close>.\<close>

definition takeoff :: "Bebop \<Rightarrow> pyval result \<times> Bebop" where
  "takeoff b =
     (let command_tuple = get_command_tuple ''ardrone3'' ''Piloting'' ''TakeOff''
      in case send_noparam_command_packet_ack command_tuple b of
           (Inl e, b') \<Rightarrow> (Inl e, b')
         | (Inr accepted, b') \<Rightarrow> (Inr PNone, b'))"

definition land :: "Bebop \<Rightarrow> pyval result \<times> Bebop" where
  "land b =
     (let command_tuple = get_command_tuple ''ardrone3'' ''Piloting'' ''Landing''
      in case send_noparam_command_packet_ack command_tuple b of
           (Inl e, b') \<Rightarrow> (Inl e, b')
         | (Inr accepted, b') \<Rightarrow> (Inr (PBool accepted), b'))"

subsection \<open>safe_takeoff and safe_land\<close>

text \<open>
  The clock is a parameter: \<open>clock k\<close> is what the \<open>k\<close>-th call of \<open>time.time()\<close>
  returns, in ticks. Nothing makes it advance, so the loops below need not end: they
  are partial functions, and \<open>None\<close> stands for a run that never returns.
\<close>

definition time_time :: "(nat \<Rightarrow> int) \<Rightarrow> Bebop \<Rightarrow> int \<times> Bebop" where
  "time_time clock b = (clock (clock_reads b), b\<lparr>clock_reads := Suc (clock_reads b)\<rparr>)"

text \<open>How a \<open>while\<close> loop was left: by the \<open>return\<close> in its body, or by its condition.\<close>

datatype loop_exit = LoopReturn | LoopEnd

text \<open>The first loop of \<open>safe_takeoff\<close>. The condition reads the clock only when
  its first conjunct holds.\<close>

partial_function (option) takeoff_until_takingoff ::
  "(nat \<Rightarrow> int) \<Rightarrow> int \<Rightarrow> int \<Rightarrow> Bebop \<Rightarrow> (loop_exit result \<times> Bebop) option"
where
  "takeoff_until_takingoff clock start_time timeout b =
     (if flying_state (sensors b) \<noteq> PStr ''takingoff'' then
        (if fst (time_time clock b) - start_time < timeout then
           (if flying_state (sensors (snd (time_time clock b))) = PStr ''emergency''
            then Some (Inr LoopReturn, snd (time_time clock b))
            else
              (case takeoff (snd (time_time clock b)) of
                 (Inl e, b2) \<Rightarrow> Some (Inl e, b2)
               | (Inr success, b2) \<Rightarrow>
                   (case smart_sleep 1 b2 of
                      (Inl e, b3) \<Rightarrow> Some (Inl e, b3)
                    | (Inr u, b3) \<Rightarrow> takeoff_until_takingoff clock start_time timeout b3)))
         else Some (Inr LoopEnd, snd (time_time clock b)))
      else Some (Inr LoopEnd, b))"

text \<open>The second loop of \<open>safe_takeoff\<close>, to the end of the method.\<close>

partial_function (option) takeoff_until_flying ::
  "(nat \<Rightarrow> int) \<Rightarrow> int \<Rightarrow> int \<Rightarrow> Bebop \<Rightarrow> (pyval result \<times> Bebop) option"
where
  "takeoff_until_flying clock start_time timeout b =
     (if flying_state (sensors b) \<notin> set [PStr ''flying'', PStr ''hovering''] then
        (if fst (time_time clock b) - start_time < timeout then
           (if flying_state (sensors (snd (time_time clock b))) = PStr ''emergency''
            then Some (Inr PNone, snd (time_time clock b))
            else
              (case smart_sleep 1 (snd (time_time clock b)) of
                 (Inl e, b2) \<Rightarrow> Some (Inl e, b2)
               | (Inr u, b2) \<Rightarrow> takeoff_until_flying clock start_time timeout b2))
         else Some (Inr PNone, snd (time_time clock b)))
      else Some (Inr PNone, b))"

text \<open>\<open>safe_takeoff\<close> from the head of its first loop.\<close>

definition safe_takeoff_loops ::
  "(nat \<Rightarrow> int) \<Rightarrow> int \<Rightarrow> int \<Rightarrow> Bebop \<Rightarrow> (pyval result \<times> Bebop) option"
where
  "safe_takeoff_loops clock start_time timeout b =
     (case takeoff_until_takingoff clock start_time timeout b of
        None \<Rightarrow> None
      | Some (Inl e, b1) \<Rightarrow> Some (Inl e, b1)
      | Some (Inr LoopReturn, b1) \<Rightarrow> Some (Inr PNone, b1)
      | Some (Inr LoopEnd, b1) \<Rightarrow> takeoff_until_flying clock start_time timeout b1)"

definition safe_takeoff :: "(nat \<Rightarrow> int) \<Rightarrow> int \<Rightarrow> Bebop \<Rightarrow> (pyval result \<times> Bebop) option" where
  "safe_takeoff clock timeout b =
     (case time_time clock b of
        (start_time, b0) \<Rightarrow> safe_takeoff_loops clock start_time timeout b0)"

text \<open>The first loop of \<open>safe_land\<close>.\<close>

partial_function (option) land_until_landing ::
  "(nat \<Rightarrow> int) \<Rightarrow> int \<Rightarrow> int \<Rightarrow> Bebop \<Rightarrow> (loop_exit result \<times> Bebop) option"
where
  "land_until_landing clock start_time timeout b =
     (if flying_state (sensors b) \<notin> set [PStr ''landing'', PStr ''landed''] then
        (if fst (time_time clock b) - start_time < timeout then
           (if flying_state (sensors (snd (time_time clock b))) = PStr ''emergency''
            then Some (Inr LoopReturn, snd (time_time clock b))
            else
              (case land ((snd (time_time clock b))
                            \<lparr>console := console (snd (time_time clock b)) @
                               [ColorPrint ''trying to land'' ''INFO'']\<rparr>) of
                 (Inl e, b2) \<Rightarrow> Some (Inl e, b2)
               | (Inr success, b2) \<Rightarrow>
                   (case smart_sleep 1 b2 of
                      (Inl e, b3) \<Rightarrow> Some (Inl e, b3)
                    | (Inr u, b3) \<Rightarrow> land_until_landing clock start_time timeout b3)))
         else Some (Inr LoopEnd, snd (time_time clock b)))
      else Some (Inr LoopEnd, b))"

text \<open>The second loop of \<open>safe_land\<close>, to the end of the method.\<close>

partial_function (option) land_until_landed ::
  "(nat \<Rightarrow> int) \<Rightarrow> int \<Rightarrow> int \<Rightarrow> Bebop \<Rightarrow> (pyval result \<times> Bebop) option"
where
  "land_until_landed clock start_time timeout b =
     (if flying_state (sensors b) \<noteq> PStr ''landed'' then
        (if fst (time_time clock b) - start_time < timeout then
           (if flying_state (sensors (snd (time_time clock b))) = PStr ''emergency''
            then Some (Inr PNone, snd (time_time clock b))
            else
              (case smart_sleep 1 (snd (time_time clock b)) of
                 (Inl e, b2) \<Rightarrow> Some (Inl e, b2)
               | (Inr u, b2) \<Rightarrow> land_until_landed clock start_time timeout b2))
         else Some (Inr PNone, snd (time_time clock b)))
      else Some (Inr PNone, b))"

text \<open>\<open>safe_land\<close> from the head of its first loop.\<close>

definition safe_land_loops ::
  "(nat \<Rightarrow> int) \<Rightarrow> int \<Rightarrow> int \<Rightarrow> Bebop \<Rightarrow> (pyval result \<times> Bebop) option"
where
  "safe_land_loops clock start_time timeout b =
     (case land_until_landing clock start_time timeout b of
        None \<Rightarrow> None
      | Some (Inl e, b1) \<Rightarrow> Some (Inl e, b1)
      | Some (Inr LoopReturn, b1) \<Rightarrow> Some (Inr PNone, b1)
      | Some (Inr LoopEnd, b1) \<Rightarrow> land_until_landed clock start_time timeout b1)"

definition safe_land :: "(nat \<Rightarrow> int) \<Rightarrow> int \<Rightarrow> Bebop \<Rightarrow> (pyval result \<times> Bebop) option" where
  "safe_land clock timeout b =
     (case time_time clock b of
        (start_time, b0) \<Rightarrow> safe_land_loops clock start_time timeout b0)"

subsection \<open>fly_direct and flip\<close>

definition ensure_fly_command_in_range :: "int \<Rightarrow> int" where
  "ensure_fly_command_in_range v = (if v < - 100 then - 100 else if v > 100 then 100 else v)"

definition fly_direct :: "int \<Rightarrow> int \<Rightarrow> int \<Rightarrow> int \<Rightarrow> int \<Rightarrow> Bebop \<Rightarrow> pyval result \<times> Bebop" where
  "fly_direct roll pitch yaw vertical_movement duration b =
     (let my_roll = ensure_fly_command_in_range roll;
          my_pitch = ensure_fly_command_in_range pitch;
          my_yaw = ensure_fly_command_in_range yaw;
          my_vertical = ensure_fly_command_in_range vertical_movement
      in case py_format ''roll is %d pitch is %d yaw is %d vertical is %d''
                [PInt my_roll, PInt my_pitch, PInt my_yaw, PInt my_vertical] of
           Inl e \<Rightarrow> (Inl e, b)
         | Inr line \<Rightarrow>
             (let command_tuple = get_command_tuple ''ardrone3'' ''Piloting'' ''PCMD''
              in case send_pcmd_command command_tuple my_roll my_pitch my_yaw my_vertical
                        duration (b\<lparr>console := console b @ [Print line]\<rparr>) of
                   (Inl e, b') \<Rightarrow> (Inl e, b')
                 | (Inr u, b') \<Rightarrow> (Inr PNone, b')))"

text \<open>
  \<open>flip\<close>. In the first \<open>print\<close> the operator \<open>%\<close> binds tighter than the comma: the
  format string, which has two conversions, is applied to \<open>direction\<close> alone, and the
  second string is a second argument of \<open>print\<close>.
\<close>

definition flip :: "string \<Rightarrow> Bebop \<Rightarrow> pyval result \<times> Bebop" where
  "flip direction b =
     (let fixed_direction = lower direction
      in if fixed_direction \<notin> set [''front'', ''back'', ''right'', ''left''] then
           (case py_format ''Error: %s is not a valid direction.  Must be one of %s''
                   [PStr direction] of
              Inl e \<Rightarrow> (Inl e, b)
            | Inr line \<Rightarrow>
                (Inr PNone,
                 b\<lparr>console := console b @
                     [Print (line @ '' '' @ ''front, back, right, or left''),
                      Print ''Ignoring command and returning'']\<rparr>))
         else
           (case get_command_tuple_with_enum ''ardrone3'' ''Animations'' ''Flip''
                   fixed_direction of
              (command_tuple, enum_tuple) \<Rightarrow>
                (case send_enum_command_packet_ack command_tuple enum_tuple b of
                   (Inl e, b') \<Rightarrow> (Inl e, b')
                 | (Inr accepted, b') \<Rightarrow> (Inr (PBool accepted), b'))))"

section \<open>Example inputs\<close>

text \<open>An enum table that declares the flight state with two labels.\<close>

definition example_enum :: sensor_enum where
  "example_enum = [(''FlyingStateChanged_state'', ''enum'') \<mapsto> [''landed'', ''takingoff'']]"

text \<open>A transport that accepts everything and receives no telemetry.\<close>

definition example_connection :: WifiConnection where
  "example_connection =
     \<lparr>connect_result = (\<lambda>n. True), send_result = (\<lambda>k. True), inbound = (\<lambda>k s. s)\<rparr>"

text \<open>A freshly created \<open>Bebop\<close> on that transport.\<close>

definition example_bebop :: Bebop where
  "example_bebop =
     \<lparr>drone_connection = Some example_connection, sensors = init_sensors, calls = [],
      console = [], clock_reads = 0\<rparr>"

text \<open>The same with the flight state \<open>emergency\<close>.\<close>

definition emergency_bebop :: Bebop where
  "emergency_bebop =
     example_bebop\<lparr>sensors := init_sensors\<lparr>flying_state := PStr ''emergency''\<rparr>\<rparr>"

text \<open>Sensors on which both move flags are already set.\<close>

definition moved_sensors :: BebopSensors where
  "moved_sensors = init_sensors\<lparr>RelativeMoveEnded := True, CameraMoveEnded := True\<rparr>"

text \<open>A packet of two decoded sensors, and one whose flight state index equals the
  length of the enum table.\<close>

definition example_packet :: "unit sensor list" where
  "example_packet =
     [(Some ''FlyingStateChanged_state'', PInt 1, example_enum, ()),
      (Some ''PilotingEvent_moveByEnd'', PInt 0, example_enum, ())]"

definition example_faulting_packet :: "unit sensor list" where
  "example_faulting_packet = [(Some ''FlyingStateChanged_state'', PInt 2, example_enum, ())]"

section \<open>Enumerated sensors\<close>

lemma stored_value_absent:
  "sensor_enum (name, ''enum'') = Some labels \<Longrightarrow>
   stored_value name PNone sensor_enum = Inr (PStr ''UNKNOWN_ENUM_VALUE'')"
  by (simp add: stored_value_def)

lemma stored_value_above_length:
  "sensor_enum (name, ''enum'') = Some labels \<Longrightarrow> int (length labels) < i \<Longrightarrow>
   stored_value name (PInt i) sensor_enum = Inr (PStr ''UNKNOWN_ENUM_VALUE'')"
  by (simp add: stored_value_def py_gt_def)

text \<open>The guard of line 28 is \<open>>\<close>: an index equal to the length passes it and
  the lookup of line 31 is out of range.\<close>

lemma stored_value_at_length:
  "sensor_enum (name, ''enum'') = Some labels \<Longrightarrow>
   stored_value name (PInt (int (length labels))) sensor_enum = Inl IndexError"
  by (simp add: stored_value_def py_gt_def py_getitem_def)

text \<open>
  C1. For an enumerated field, a raw value that is absent or at least the length of the
  enum table should be stored as \<open>UNKNOWN_ENUM_VALUE\<close> without a fault. The code does
  so for an absent value and for a value above the length, but not at the length itself:
  with two labels declared, the raw value 2 raises IndexError and nothing is stored.
\<close>

theorem update_index_equal_to_length_raises:
  "update (Some ''FlyingStateChanged_state'') (PInt 2) example_enum init_sensors =
     (Inl IndexError, [], init_sensors)"
  by (simp add: update_def stored_value_def example_enum_def py_gt_def py_getitem_def)

text \<open>For a field that the table does not declare as enumerated, the flag and the
  mapping get the same value; before any update the flag is \<open>unknown\<close>.\<close>

lemma flying_state_plain_field:
  "sensor_enum (''FlyingStateChanged_state'', ''enum'') = None \<Longrightarrow>
   sensors_dict (snd (snd (update (Some ''FlyingStateChanged_state'') sensor_value sensor_enum s)))
       ''FlyingStateChanged_state'' =
     Some (flying_state (snd (snd (update (Some ''FlyingStateChanged_state'') sensor_value
       sensor_enum s))))"
  by (simp add: update_def stored_value_def save_outside_def)

lemma flying_state_initially_unknown: "flying_state init_sensors = PStr ''unknown''"
  by (simp add: init_sensors_def)

text \<open>
  C2. After an update of \<open>FlyingStateChanged_state\<close> the flag \<open>flying_state\<close> should
  equal the value stored in the mapping. For an enumerated field the mapping gets the
  label while the flag gets the raw index: the raw value 1 stores \<open>takingoff\<close> and sets
  the flag to 1.
\<close>

theorem flying_state_is_raw_index:
  "fst (update (Some ''FlyingStateChanged_state'') (PInt 1) example_enum init_sensors) = Inr ()
   \<and> sensors_dict (snd (snd (update (Some ''FlyingStateChanged_state'') (PInt 1) example_enum
        init_sensors))) ''FlyingStateChanged_state'' = Some (PStr ''takingoff'')
   \<and> flying_state (snd (snd (update (Some ''FlyingStateChanged_state'') (PInt 1) example_enum
        init_sensors))) = PInt 1"
  by (simp add: update_def stored_value_def example_enum_def py_gt_def py_getitem_def
      save_outside_def init_sensors_def)

section \<open>Direct actions\<close>

lemma takeoff_connected:
  "drone_connection b = Some conn \<Longrightarrow>
   takeoff b =
     (Inr PNone,
      b\<lparr>calls := calls b @
           [(SendNoParamAck (CommandTuple ''ardrone3'' ''Piloting'' ''TakeOff''), sensors b)],
        sensors := inbound conn (length (calls b)) (sensors b)\<rparr>)"
  by (simp add: takeoff_def send_noparam_command_packet_ack_def transport_def
      get_command_tuple_def Let_def)

lemma land_connected:
  "drone_connection b = Some conn \<Longrightarrow>
   land b =
     (Inr (PBool (send_result conn (length (calls b)))),
      b\<lparr>calls := calls b @
           [(SendNoParamAck (CommandTuple ''ardrone3'' ''Piloting'' ''Landing''), sensors b)],
        sensors := inbound conn (length (calls b)) (sensors b)\<rparr>)"
  by (simp add: land_def send_noparam_command_packet_ack_def transport_def
      get_command_tuple_def Let_def)

text \<open>
  C3. \<open>takeoff\<close> and \<open>land\<close> should each send once and return whether the transport
  accepted the command. Both send once, and \<open>land\<close> returns the transport's answer;
  \<open>takeoff\<close> drops it and returns \<open>None\<close>, here on a transport that answers \<open>True\<close>.
\<close>

theorem takeoff_returns_None:
  "fst (takeoff example_bebop) = Inr PNone \<and> fst (land example_bebop) = Inr (PBool True)"
  by (simp add: takeoff_def land_def send_noparam_command_packet_ack_def transport_def
      get_command_tuple_def Let_def example_bebop_def example_connection_def)

lemma flip_invalid:
  "lower direction \<notin> set [''front'', ''back'', ''right'', ''left''] \<Longrightarrow>
   flip direction b = (Inl TypeError, b)"
  by (simp add: flip_def Let_def py_conv_def)

lemma flip_valid:
  "lower direction \<in> set [''front'', ''back'', ''right'', ''left''] \<Longrightarrow>
   drone_connection b = Some conn \<Longrightarrow>
   flip direction b =
     (Inr (PBool (send_result conn (length (calls b)))),
      b\<lparr>calls := calls b @
           [(SendEnumAck (CommandTuple ''ardrone3'' ''Animations'' ''Flip'')
               (EnumTuple (lower direction)), sensors b)],
        sensors := inbound conn (length (calls b)) (sensors b)\<rparr>)"
  by (auto simp add: flip_def Let_def get_command_tuple_with_enum_def
      send_enum_command_packet_ack_def transport_def)

text \<open>
  C5. For a direction outside front, back, right, left, \<open>flip\<close> should print a
  diagnostic naming the input and return without sending. It sends nothing, but it does
  not print or return either: building the diagnostic raises TypeError, here for \<open>UP\<close>.
\<close>

theorem flip_invalid_direction_raises:
  "flip ''UP'' example_bebop = (Inl TypeError, example_bebop)"
  by (simp add: flip_def Let_def py_conv_def lower_def lower_char_def)

lemma pcmd_line:
  "\<exists>line. py_format ''roll is %d pitch is %d yaw is %d vertical is %d''
            [PInt r, PInt p, PInt y, PInt v] = Inr line"
  by (simp add: py_conv_def)

text \<open>
  C4. On a connected \<open>Bebop\<close>, \<open>fly_direct\<close> accepts every roll, pitch, yaw and
  vertical movement and makes one PCMD call whose four axis arguments are the four inputs,
  each passed through \<open>_ensure_fly_command_in_range\<close> on its own. That function sends
  a value below -100 to -100, a value above 100 to 100, leaves a value in between as it
  is, and so always lands in the closed range from -100 to 100.
\<close>

theorem fly_direct_clamps_each_axis:
  assumes "drone_connection b = Some conn"
  shows
    "fst (fly_direct roll pitch yaw vertical_movement duration b) = Inr PNone
     \<and> calls (snd (fly_direct roll pitch yaw vertical_movement duration b)) =
         calls b @
         [(SendPcmd (CommandTuple ''ardrone3'' ''Piloting'' ''PCMD'')
             (ensure_fly_command_in_range roll) (ensure_fly_command_in_range pitch)
             (ensure_fly_command_in_range yaw) (ensure_fly_command_in_range vertical_movement)
             duration, sensors b)]
     \<and> (\<forall>v. (v < - 100 \<longrightarrow> ensure_fly_command_in_range v = - 100)
            \<and> (100 < v \<longrightarrow> ensure_fly_command_in_range v = 100)
            \<and> (- 100 \<le> v \<and> v \<le> 100 \<longrightarrow> ensure_fly_command_in_range v = v)
            \<and> - 100 \<le> ensure_fly_command_in_range v \<and> ensure_fly_command_in_range v \<le> 100)"
proof -
  obtain line where
    "py_format ''roll is %d pitch is %d yaw is %d vertical is %d''
       [PInt (ensure_fly_command_in_range roll), PInt (ensure_fly_command_in_range pitch),
        PInt (ensure_fly_command_in_range yaw),
        PInt (ensure_fly_command_in_range vertical_movement)] = Inr line"
    using pcmd_line by blast
  then have
    "fly_direct roll pitch yaw vertical_movement duration b =
       (Inr PNone,
        b\<lparr>console := console b @ [Print line],
          calls := calls b @
            [(SendPcmd (CommandTuple ''ardrone3'' ''Piloting'' ''PCMD'')
                (ensure_fly_command_in_range roll) (ensure_fly_command_in_range pitch)
                (ensure_fly_command_in_range yaw)
                (ensure_fly_command_in_range vertical_movement) duration, sensors b)],
          sensors := inbound conn (length (calls b)) (sensors b)\<rparr>)"
    using assms
    by (simp add: fly_direct_def Let_def send_pcmd_command_def transport_def
        get_command_tuple_def)
  moreover have
    "\<forall>v. (v < - 100 \<longrightarrow> ensure_fly_command_in_range v = - 100)
        \<and> (100 < v \<longrightarrow> ensure_fly_command_in_range v = 100)
        \<and> (- 100 \<le> v \<and> v \<le> 100 \<longrightarrow> ensure_fly_command_in_range v = v)
        \<and> - 100 \<le> ensure_fly_command_in_range v \<and> ensure_fly_command_in_range v \<le> 100"
    by (simp add: ensure_fly_command_in_range_def)
  ultimately show ?thesis by simp
qed

theorem fly_direct_clamps_each_axis_witness:
  "drone_connection example_bebop = Some example_connection
   \<and> fst (fly_direct (- 150) 150 0 37 5 example_bebop) = Inr PNone
   \<and> calls (snd (fly_direct (- 150) 150 0 37 5 example_bebop)) =
       [(SendPcmd (CommandTuple ''ardrone3'' ''Piloting'' ''PCMD'') (- 100) 100 0 37 5,
         init_sensors)]
   \<and> (- 150 :: int) < - 100 \<and> ensure_fly_command_in_range (- 150) = - 100
   \<and> (100 :: int) < 150 \<and> ensure_fly_command_in_range 150 = 100
   \<and> (- 100 :: int) \<le> 0 \<and> (0 :: int) \<le> 100 \<and> ensure_fly_command_in_range 0 = 0"
proof -
  have c: "drone_connection example_bebop = Some example_connection"
    by (simp add: example_bebop_def)
  have s: "calls example_bebop = []" "sensors example_bebop = init_sensors"
    by (simp_all add: example_bebop_def)
  have v: "ensure_fly_command_in_range (- 150) = - 100" "ensure_fly_command_in_range 150 = 100"
    "ensure_fly_command_in_range 0 = 0" "ensure_fly_command_in_range 37 = 37"
    by (simp_all add: ensure_fly_command_in_range_def)
  show ?thesis
    using fly_direct_clamps_each_axis [OF c, of "- 150" 150 0 37 5] c s v by simp
qed

section \<open>connect\<close>

text \<open>
  C10. Without a connection object \<open>connect\<close> returns \<open>False\<close> and leaves everything
  as it was, so no call reaches the transport. With one, it makes the single call
  \<open>connect(num_retries)\<close> and returns the transport's answer.
\<close>

theorem connect_returns_transport_answer:
  "connect num_retries (b\<lparr>drone_connection := None\<rparr>) =
     (Inr (PBool False), b\<lparr>drone_connection := None\<rparr>)
   \<and> connect num_retries (b\<lparr>drone_connection := Some conn\<rparr>) =
       (Inr (PBool (connect_result conn num_retries)),
        b\<lparr>drone_connection := Some conn,
          calls := calls b @ [(Connect num_retries, sensors b)],
          sensors := inbound conn (length (calls b)) (sensors b)\<rparr>)"
  by (simp add: connect_def transport_def Let_def)

section \<open>Derived flags\<close>

text \<open>
  C9. An update whose name is not exactly \<open>FlyingStateChanged_state\<close> leaves
  \<open>flying_state\<close> as it was; one whose name is not exactly \<open>PilotingEvent_moveByEnd\<close>
  leaves \<open>RelativeMoveEnded\<close> as it was; one whose name is not exactly
  \<open>CameraState_OrientationV2\<close> leaves \<open>CameraMoveEnded\<close> as it was. No update at all
  resets \<open>RelativeMoveEnded\<close> or \<open>CameraMoveEnded\<close> once it is true.
\<close>

theorem derived_flags_change_only_on_exact_name:
  "(sensor_name \<noteq> Some ''FlyingStateChanged_state'' \<longrightarrow>
      flying_state (snd (snd (update sensor_name sensor_value sensor_enum s))) = flying_state s)
   \<and> (sensor_name \<noteq> Some ''PilotingEvent_moveByEnd'' \<longrightarrow>
      RelativeMoveEnded (snd (snd (update sensor_name sensor_value sensor_enum s))) =
        RelativeMoveEnded s)
   \<and> (sensor_name \<noteq> Some ''CameraState_OrientationV2'' \<longrightarrow>
      CameraMoveEnded (snd (snd (update sensor_name sensor_value sensor_enum s))) =
        CameraMoveEnded s)
   \<and> (RelativeMoveEnded s \<longrightarrow>
      RelativeMoveEnded (snd (snd (update sensor_name sensor_value sensor_enum s))))
   \<and> (CameraMoveEnded s \<longrightarrow>
      CameraMoveEnded (snd (snd (update sensor_name sensor_value sensor_enum s))))"
  by (auto simp add: update_def save_outside_def Let_def split: option.splits sum.splits)

theorem derived_flags_change_only_on_exact_name_witness:
  "Some ''FlyingStateChanged_stat'' \<noteq> Some ''FlyingStateChanged_state''
   \<and> Some ''FlyingStateChanged_stat'' \<noteq> Some ''PilotingEvent_moveByEnd''
   \<and> Some ''FlyingStateChanged_stat'' \<noteq> Some ''CameraState_OrientationV2''
   \<and> RelativeMoveEnded moved_sensors \<and> CameraMoveEnded moved_sensors
   \<and> flying_state (snd (snd (update (Some ''FlyingStateChanged_stat'') (PInt 1) example_enum
        moved_sensors))) = PStr ''unknown''
   \<and> RelativeMoveEnded (snd (snd (update (Some ''FlyingStateChanged_stat'') (PInt 1) example_enum
        moved_sensors)))
   \<and> CameraMoveEnded (snd (snd (update (Some ''FlyingStateChanged_stat'') (PInt 1) example_enum
        moved_sensors)))"
proof -
  have m: "RelativeMoveEnded moved_sensors" "CameraMoveEnded moved_sensors"
    "flying_state moved_sensors = PStr ''unknown''"
    by (simp_all add: moved_sensors_def init_sensors_def)
  show ?thesis
    using derived_flags_change_only_on_exact_name
      [where sensor_name = "Some ''FlyingStateChanged_stat''" and s = moved_sensors
         and sensor_value = "PInt 1" and sensor_enum = example_enum] m
    by simp
qed

text \<open>The same over a whole packet: the loop of \<open>update_sensors\<close> never clears a
  move flag.\<close>

lemma for_sensor_list_keeps_move_flags:
  "(RelativeMoveEnded (sensors b) \<longrightarrow>
      RelativeMoveEnded (sensors (snd (for_sensor_list data_type buffer_id sequence_number
         sensor_list b))))
   \<and> (CameraMoveEnded (sensors b) \<longrightarrow>
      CameraMoveEnded (sensors (snd (for_sensor_list data_type buffer_id sequence_number
         sensor_list b))))"
proof (induction data_type buffer_id sequence_number sensor_list b rule: for_sensor_list.induct)
  case (1 data_type buffer_id sequence_number b)
  show ?case by simp
next
  case (2 data_type buffer_id sequence_number sensor_name sensor_value sensor_enum header_tuple
      rest b)
  show ?case
  proof (cases sensor_name)
    case None
    with 2 show ?thesis
      by (simp add: py_conv_def)
  next
    case (Some name)
    have keep: "(RelativeMoveEnded (sensors b) \<longrightarrow>
        RelativeMoveEnded (snd (snd (update (Some name) sensor_value sensor_enum (sensors b)))))
      \<and> (CameraMoveEnded (sensors b) \<longrightarrow>
        CameraMoveEnded (snd (snd (update (Some name) sensor_value sensor_enum (sensors b)))))"
      by (auto simp add: update_def save_outside_def Let_def split: sum.splits)
    obtain r printed s
      where u: "update (Some name) sensor_value sensor_enum (sensors b) = (r, printed, s)"
      by (cases "update (Some name) sensor_value sensor_enum (sensors b)") auto
    show ?thesis
    proof (cases r)
      case (Inl e)
      with keep u Some show ?thesis by simp
    next
      case (Inr x)
      with keep u Some "2.IH"(1) show ?thesis by auto
    qed
  qed
qed

section \<open>The telemetry dispatcher\<close>

lemma missing_sensor_line:
  "py_format ''data type %d buffer id %d sequence number %d'' [PInt x, PInt y, PInt z] =
     Inr (''data type '' @ dec_int x @ '' buffer id '' @ dec_int y @
          '' sequence number '' @ dec_int z)"
  by (simp add: py_conv_def)

lemma for_sensor_list_frame:
  "calls (snd (for_sensor_list data_type buffer_id sequence_number sensor_list b)) = calls b
   \<and> drone_connection (snd (for_sensor_list data_type buffer_id sequence_number sensor_list b)) =
       drone_connection b
   \<and> clock_reads (snd (for_sensor_list data_type buffer_id sequence_number sensor_list b)) =
       clock_reads b"
  by (induction data_type buffer_id sequence_number sensor_list b rule: for_sensor_list.induct)
    (auto simp add: missing_sensor_line simp del: py_format.simps split: prod.splits sum.splits)

lemma for_sensor_list_console:
  assumes "sensors b' = sensors b"
  shows
    "fst (for_sensor_list data_type buffer_id sequence_number sensor_list b') =
       fst (for_sensor_list data_type buffer_id sequence_number sensor_list b)
     \<and> sensors (snd (for_sensor_list data_type buffer_id sequence_number sensor_list b')) =
         sensors (snd (for_sensor_list data_type buffer_id sequence_number sensor_list b))"
  using assms
proof (induction sensor_list arbitrary: b b')
  case Nil
  then show ?case by simp
next
  case (Cons sensor rest)
  obtain sensor_name sensor_value sensor_enum header_tuple
    where sensor: "sensor = (sensor_name, sensor_value, sensor_enum, header_tuple)"
    by (cases sensor) auto
  show ?case
  proof (cases sensor_name)
    case None
    let ?w = "[ColorPrint (''data type '' @ dec_int data_type @ '' buffer id '' @
                 dec_int buffer_id @ '' sequence number '' @ dec_int sequence_number) ''WARN'',
               ColorPrint (''This sensor is missing (likely because we don'' @ [CHR 0x27] @
                 ''t need it)'') ''WARN'']"
    have "sensors (b'\<lparr>console := console b' @ ?w\<rparr>) = sensors (b\<lparr>console := console b @ ?w\<rparr>)"
      using Cons.prems by simp
    from Cons.IH [OF this] show ?thesis
      by (simp add: sensor None missing_sensor_line del: py_format.simps)
  next
    case (Some name)
    obtain r printed s
      where u: "update (Some name) sensor_value sensor_enum (sensors b) = (r, printed, s)"
      by (cases "update (Some name) sensor_value sensor_enum (sensors b)") auto
    have "sensors (b'\<lparr>sensors := s, console := console b' @ map Print printed\<rparr>) =
          sensors (b\<lparr>sensors := s, console := console b @ map Print printed\<rparr>)"
      by simp
    from Cons.IH [OF this] show ?thesis
      using Cons.prems u by (cases r) (simp_all add: sensor Some)
  qed
qed

lemma for_sensor_list_console_update:
  "fst (for_sensor_list data_type buffer_id sequence_number sensor_list (b\<lparr>console := c\<rparr>)) =
     fst (for_sensor_list data_type buffer_id sequence_number sensor_list b)
   \<and> sensors (snd (for_sensor_list data_type buffer_id sequence_number sensor_list
         (b\<lparr>console := c\<rparr>))) =
       sensors (snd (for_sensor_list data_type buffer_id sequence_number sensor_list b))"
  by (rule for_sensor_list_console) simp

lemma for_sensor_list_skips_missing:
  "fst (for_sensor_list data_type buffer_id sequence_number
          (before @ (None, sensor_value, sensor_enum, header_tuple) # after) b) =
     fst (for_sensor_list data_type buffer_id sequence_number (before @ after) b)
   \<and> sensors (snd (for_sensor_list data_type buffer_id sequence_number
          (before @ (None, sensor_value, sensor_enum, header_tuple) # after) b)) =
     sensors (snd (for_sensor_list data_type buffer_id sequence_number (before @ after) b))"
proof (induction before arbitrary: b)
  case Nil
  show ?case
    by (simp add: missing_sensor_line for_sensor_list_console_update del: py_format.simps)
next
  case (Cons sensor rest)
  obtain name v e h where sensor: "sensor = (name, v, e, h)"
    by (cases sensor) auto
  show ?case
    using Cons.IH
    by (simp add: sensor missing_sensor_line del: py_format.simps split: prod.splits sum.splits)
qed

lemma update_sensors_decoded:
  "update_sensors Some data_type buffer_id sequence_number sensor_list ack b =
     (case fst (for_sensor_list data_type buffer_id sequence_number sensor_list b) of
        Inl e \<Rightarrow> (Inl e, snd (for_sensor_list data_type buffer_id sequence_number sensor_list b))
      | Inr u \<Rightarrow>
          (if ack
           then ack_packet buffer_id sequence_number
                  (snd (for_sensor_list data_type buffer_id sequence_number sensor_list b))
           else (Inr (), snd (for_sensor_list data_type buffer_id sequence_number sensor_list b))))"
  by (simp add: update_sensors_def split: prod.splits sum.splits)

lemma ack_packet_same:
  assumes "sensors b' = sensors b" "calls b' = calls b" "drone_connection b' = drone_connection b"
  shows "fst (ack_packet buffer_id sequence_number b') = fst (ack_packet buffer_id sequence_number b)
    \<and> sensors (snd (ack_packet buffer_id sequence_number b')) =
        sensors (snd (ack_packet buffer_id sequence_number b))
    \<and> calls (snd (ack_packet buffer_id sequence_number b')) =
        calls (snd (ack_packet buffer_id sequence_number b))"
  using assms by (simp add: ack_packet_def transport_def Let_def split: option.splits)

text \<open>
  C6. \<open>update\<close> with no sensor name prints one line, returns normally and leaves the
  sensors as they were. In \<open>update_sensors\<close> a decoded sensor with no name passes the
  loop without an exception and without touching the sensors, and a packet that holds
  one is processed like the packet without it: same outcome, same sensors, same calls to
  the transport.
\<close>

theorem absent_sensor_name_is_skipped:
  "update None sensor_value sensor_enum s = (Inr (), [''Error empty sensor''], s)
   \<and> fst (for_sensor_list data_type buffer_id sequence_number [(None, v, e, h)] b) = Inr ()
   \<and> sensors (snd (for_sensor_list data_type buffer_id sequence_number [(None, v, e, h)] b)) =
       sensors b
   \<and> fst (update_sensors Some data_type buffer_id sequence_number
            (before @ (None, v, e, h) # after) ack b) =
       fst (update_sensors Some data_type buffer_id sequence_number (before @ after) ack b)
   \<and> sensors (snd (update_sensors Some data_type buffer_id sequence_number
            (before @ (None, v, e, h) # after) ack b)) =
       sensors (snd (update_sensors Some data_type buffer_id sequence_number
            (before @ after) ack b))
   \<and> calls (snd (update_sensors Some data_type buffer_id sequence_number
            (before @ (None, v, e, h) # after) ack b)) =
       calls (snd (update_sensors Some data_type buffer_id sequence_number
            (before @ after) ack b))"
proof -
  let ?with = "for_sensor_list data_type buffer_id sequence_number
                 (before @ (None, v, e, h) # after) b"
  let ?without = "for_sensor_list data_type buffer_id sequence_number (before @ after) b"
  have same: "fst ?with = fst ?without" "sensors (snd ?with) = sensors (snd ?without)"
    using for_sensor_list_skips_missing [of data_type buffer_id sequence_number before v e h after b]
    by simp_all
  have frame: "calls (snd ?with) = calls (snd ?without)"
    "drone_connection (snd ?with) = drone_connection (snd ?without)"
    by (simp_all add: for_sensor_list_frame)
  have one: "update None sensor_value sensor_enum s = (Inr (), [''Error empty sensor''], s)"
    by (simp add: update_def)
  have single: "fst (for_sensor_list data_type buffer_id sequence_number [(None, v, e, h)] b) = Inr ()"
    "sensors (snd (for_sensor_list data_type buffer_id sequence_number [(None, v, e, h)] b)) =
       sensors b"
    by (simp_all add: missing_sensor_line del: py_format.simps)
  have batch:
    "fst (update_sensors Some data_type buffer_id sequence_number
            (before @ (None, v, e, h) # after) ack b) =
       fst (update_sensors Some data_type buffer_id sequence_number (before @ after) ack b)"
    "sensors (snd (update_sensors Some data_type buffer_id sequence_number
            (before @ (None, v, e, h) # after) ack b)) =
       sensors (snd (update_sensors Some data_type buffer_id sequence_number
            (before @ after) ack b))"
    "calls (snd (update_sensors Some data_type buffer_id sequence_number
            (before @ (None, v, e, h) # after) ack b)) =
       calls (snd (update_sensors Some data_type buffer_id sequence_number
            (before @ after) ack b))"
    using same frame
      ack_packet_same [OF same(2) frame(1) frame(2), of buffer_id sequence_number]
    by (simp_all add: update_sensors_decoded split: sum.splits)
  show ?thesis
    using one single batch by blast
qed

text \<open>
  What \<open>update_sensors\<close> does about the acknowledgement. Without the flag it never
  calls the transport. With the flag, on a connected \<open>Bebop\<close> and when no sensor of the
  packet raises, it returns normally after exactly one call \<open>ack_packet(buffer_id,
  sequence_number)\<close>, made when the sensors are those left by the whole loop.
\<close>

lemma update_sensors_acknowledges_after_events:
  "calls (snd (update_sensors extract_sensor_values data_type buffer_id sequence_number raw_data
       False b)) = calls b
   \<and> (drone_connection b = Some conn
        \<and> fst (for_sensor_list data_type buffer_id sequence_number
                 (case extract_sensor_values raw_data of None \<Rightarrow> [] | Some l \<Rightarrow> l) b) = Inr ()
      \<longrightarrow> fst (update_sensors extract_sensor_values data_type buffer_id sequence_number raw_data
                 True b) = Inr ()
        \<and> calls (snd (update_sensors extract_sensor_values data_type buffer_id sequence_number
                 raw_data True b)) =
            calls b @
            [(AckPacket buffer_id sequence_number,
              sensors (snd (for_sensor_list data_type buffer_id sequence_number
                 (case extract_sensor_values raw_data of None \<Rightarrow> [] | Some l \<Rightarrow> l) b)))])"
proof -
  let ?loop = "for_sensor_list data_type buffer_id sequence_number
                 (case extract_sensor_values raw_data of None \<Rightarrow> [] | Some l \<Rightarrow> l) b"
  have u: "update_sensors extract_sensor_values data_type buffer_id sequence_number raw_data ack b =
      (case fst ?loop of
         Inl e \<Rightarrow> (Inl e, snd ?loop)
       | Inr u \<Rightarrow> (if ack then ack_packet buffer_id sequence_number (snd ?loop)
                   else (Inr (), snd ?loop)))" for ack
    by (auto simp add: update_sensors_def split: prod.splits sum.splits option.splits)
  have frame: "calls (snd ?loop) = calls b" "drone_connection (snd ?loop) = drone_connection b"
    by (simp_all add: for_sensor_list_frame)
  have no_ack: "calls (snd (update_sensors extract_sensor_values data_type buffer_id
      sequence_number raw_data False b)) = calls b"
    using frame by (simp add: u split: sum.splits)
  have with_ack: "fst (update_sensors extract_sensor_values data_type buffer_id sequence_number
          raw_data True b) = Inr ()
      \<and> calls (snd (update_sensors extract_sensor_values data_type buffer_id sequence_number
          raw_data True b)) = calls b @ [(AckPacket buffer_id sequence_number, sensors (snd ?loop))]"
    if "drone_connection b = Some conn" "fst ?loop = Inr ()"
    using that frame by (simp add: u ack_packet_def transport_def Let_def)
  show ?thesis
    using no_ack with_ack by blast
qed

lemma update_sensors_acknowledges_example:
  "drone_connection example_bebop = Some example_connection
   \<and> fst (for_sensor_list 4 127 5 example_packet example_bebop) = Inr ()
   \<and> fst (update_sensors Some 4 127 5 example_packet True example_bebop) = Inr ()
   \<and> calls (snd (update_sensors Some 4 127 5 example_packet True example_bebop)) =
       [(AckPacket 127 5,
         \<lparr>sensors_dict =
            [''FlyingStateChanged_state'' \<mapsto> PStr ''takingoff'',
             ''PilotingEvent_moveByEnd'' \<mapsto> PInt 0],
          RelativeMoveEnded = True, CameraMoveEnded = False, flying_state = PInt 1\<rparr>)]
   \<and> calls (snd (update_sensors Some 4 127 5 example_packet False example_bebop)) = []"
proof -
  have c: "drone_connection example_bebop = Some example_connection"
    "calls example_bebop = []"
    by (simp_all add: example_bebop_def)
  have l: "for_sensor_list 4 127 5 example_packet example_bebop =
     (Inr (),
      example_bebop\<lparr>sensors :=
        \<lparr>sensors_dict =
            [''FlyingStateChanged_state'' \<mapsto> PStr ''takingoff'',
             ''PilotingEvent_moveByEnd'' \<mapsto> PInt 0],
          RelativeMoveEnded = True, CameraMoveEnded = False, flying_state = PInt 1\<rparr>\<rparr>)"
    by (simp add: example_packet_def example_bebop_def update_def stored_value_def
        example_enum_def py_gt_def py_getitem_def save_outside_def init_sensors_def)
  show ?thesis
    using update_sensors_acknowledges_after_events
      [of Some 4 127 5 example_packet example_bebop example_connection] c l
    by simp
qed

text \<open>
  C7. A packet with the ack flag set should be acknowledged exactly once, after all its
  sensors were applied. An exception in \<open>update\<close> leaves \<open>update_sensors\<close> before the
  acknowledgement: the packet whose flight state index equals the length of the enum
  table ends in IndexError and the transport is never called.
\<close>

theorem faulting_event_is_not_acknowledged:
  "fst (update_sensors Some 4 127 5 example_faulting_packet True example_bebop) = Inl IndexError
   \<and> calls (snd (update_sensors Some 4 127 5 example_faulting_packet True example_bebop)) = []"
  by (simp add: update_sensors_def example_faulting_packet_def example_bebop_def update_def
      stored_value_def example_enum_def py_gt_def py_getitem_def)

section \<open>safe_takeoff and safe_land\<close>

lemma takeoff_until_takingoff_emergency:
  "flying_state (sensors b) = PStr ''emergency'' \<Longrightarrow>
   takeoff_until_takingoff clock start_time timeout b =
     Some (Inr (if clock (clock_reads b) - start_time < timeout then LoopReturn else LoopEnd),
           b\<lparr>clock_reads := Suc (clock_reads b)\<rparr>)"
  by (subst takeoff_until_takingoff.simps) (simp add: time_time_def)

lemma takeoff_until_flying_emergency:
  "flying_state (sensors b) = PStr ''emergency'' \<Longrightarrow>
   takeoff_until_flying clock start_time timeout b =
     Some (Inr PNone, b\<lparr>clock_reads := Suc (clock_reads b)\<rparr>)"
  by (subst takeoff_until_flying.simps) (simp add: time_time_def)

lemma land_until_landing_emergency:
  "flying_state (sensors b) = PStr ''emergency'' \<Longrightarrow>
   land_until_landing clock start_time timeout b =
     Some (Inr (if clock (clock_reads b) - start_time < timeout then LoopReturn else LoopEnd),
           b\<lparr>clock_reads := Suc (clock_reads b)\<rparr>)"
  by (subst land_until_landing.simps) (simp add: time_time_def)

lemma land_until_landed_emergency:
  "flying_state (sensors b) = PStr ''emergency'' \<Longrightarrow>
   land_until_landed clock start_time timeout b =
     Some (Inr PNone, b\<lparr>clock_reads := Suc (clock_reads b)\<rparr>)"
  by (subst land_until_landed.simps) (simp add: time_time_def)

text \<open>An iteration of the first loop of \<open>safe_takeoff\<close> outside an emergency
  sends the takeoff command and sleeps.\<close>

lemma takeoff_until_takingoff_iteration:
  assumes "drone_connection b = Some conn"
    and "flying_state (sensors b) \<noteq> PStr ''takingoff''"
    and "flying_state (sensors b) \<noteq> PStr ''emergency''"
    and "clock (clock_reads b) - start_time < timeout"
  shows "takeoff_until_takingoff clock start_time timeout b =
     takeoff_until_takingoff clock start_time timeout
       (b\<lparr>clock_reads := Suc (clock_reads b),
          calls := calls b @
            [(SendNoParamAck (CommandTuple ''ardrone3'' ''Piloting'' ''TakeOff''), sensors b),
             (SmartSleep 1, inbound conn (length (calls b)) (sensors b))],
          sensors := inbound conn (Suc (length (calls b)))
                       (inbound conn (length (calls b)) (sensors b))\<rparr>)"
  using assms
  by (subst takeoff_until_takingoff.simps)
    (simp add: time_time_def takeoff_def send_noparam_command_packet_ack_def transport_def
      get_command_tuple_def smart_sleep_def Let_def)

text \<open>
  C8. When the flight state is \<open>emergency\<close> at the head of a loop of \<open>safe_takeoff\<close>
  or \<open>safe_land\<close>, in either phase, the method returns from there and nothing but the
  count of clock reads has changed: no call reaches the transport, so nothing is sent
  and nothing sleeps. If the time is not up, the first loop is left by its \<open>return\<close>.
\<close>

theorem safe_takeoff_land_emergency_returns:
  assumes "flying_state (sensors b) = PStr ''emergency''"
  shows
    "safe_takeoff_loops clock start_time timeout b =
       Some (Inr PNone,
             b\<lparr>clock_reads := (if clock (clock_reads b) - start_time < timeout
                                then clock_reads b + 1 else clock_reads b + 2)\<rparr>)
     \<and> takeoff_until_flying clock start_time timeout b =
         Some (Inr PNone, b\<lparr>clock_reads := clock_reads b + 1\<rparr>)
     \<and> safe_land_loops clock start_time timeout b =
         Some (Inr PNone,
               b\<lparr>clock_reads := (if clock (clock_reads b) - start_time < timeout
                                  then clock_reads b + 1 else clock_reads b + 2)\<rparr>)
     \<and> land_until_landed clock start_time timeout b =
         Some (Inr PNone, b\<lparr>clock_reads := clock_reads b + 1\<rparr>)
     \<and> (clock (clock_reads b) - start_time < timeout \<longrightarrow>
          takeoff_until_takingoff clock start_time timeout b =
            Some (Inr LoopReturn, b\<lparr>clock_reads := clock_reads b + 1\<rparr>)
          \<and> land_until_landing clock start_time timeout b =
            Some (Inr LoopReturn, b\<lparr>clock_reads := clock_reads b + 1\<rparr>))
     \<and> (\<exists>n. safe_takeoff clock timeout b = Some (Inr PNone, b\<lparr>clock_reads := n\<rparr>))
     \<and> (\<exists>n. safe_land clock timeout b = Some (Inr PNone, b\<lparr>clock_reads := n\<rparr>))"
  using assms
  by (auto simp add: safe_takeoff_def safe_land_def time_time_def safe_takeoff_loops_def
      safe_land_loops_def takeoff_until_takingoff_emergency takeoff_until_flying_emergency
      land_until_landing_emergency land_until_landed_emergency)

theorem safe_takeoff_land_emergency_returns_witness:
  "flying_state (sensors emergency_bebop) = PStr ''emergency''
   \<and> int (clock_reads emergency_bebop) - 0 < 10
   \<and> safe_takeoff_loops int 0 10 emergency_bebop =
       Some (Inr PNone, emergency_bebop\<lparr>clock_reads := 1\<rparr>)
   \<and> takeoff_until_flying int 0 10 emergency_bebop =
       Some (Inr PNone, emergency_bebop\<lparr>clock_reads := 1\<rparr>)
   \<and> safe_land_loops int 0 10 emergency_bebop =
       Some (Inr PNone, emergency_bebop\<lparr>clock_reads := 1\<rparr>)
   \<and> land_until_landed int 0 10 emergency_bebop =
       Some (Inr PNone, emergency_bebop\<lparr>clock_reads := 1\<rparr>)
   \<and> takeoff_until_takingoff int 0 10 emergency_bebop =
       Some (Inr LoopReturn, emergency_bebop\<lparr>clock_reads := 1\<rparr>)
   \<and> land_until_landing int 0 10 emergency_bebop =
       Some (Inr LoopReturn, emergency_bebop\<lparr>clock_reads := 1\<rparr>)
   \<and> safe_takeoff int 10 emergency_bebop = Some (Inr PNone, emergency_bebop\<lparr>clock_reads := 2\<rparr>)
   \<and> safe_land int 10 emergency_bebop = Some (Inr PNone, emergency_bebop\<lparr>clock_reads := 2\<rparr>)
   \<and> calls emergency_bebop = []"
proof -
  have e: "flying_state (sensors emergency_bebop) = PStr ''emergency''"
    by (simp add: emergency_bebop_def)
  have r: "clock_reads emergency_bebop = 0"
    by (simp add: emergency_bebop_def example_bebop_def)
  have c: "calls emergency_bebop = []"
    by (simp add: emergency_bebop_def example_bebop_def)
  have m: "safe_takeoff int 10 emergency_bebop =
      safe_takeoff_loops int 0 10 (emergency_bebop\<lparr>clock_reads := 1\<rparr>)"
    "safe_land int 10 emergency_bebop =
      safe_land_loops int 0 10 (emergency_bebop\<lparr>clock_reads := 1\<rparr>)"
    by (simp_all add: safe_takeoff_def safe_land_def time_time_def r)
  have e1: "flying_state (sensors (emergency_bebop\<lparr>clock_reads := 1\<rparr>)) = PStr ''emergency''"
    using e by simp
  show ?thesis
    using safe_takeoff_land_emergency_returns [OF e, of int 0 10]
      safe_takeoff_land_emergency_returns [OF e1, of int 0 10] e r c m
    by simp
qed

end
